theory Spec2Isabelle
  imports Complex_Main
begin

section \<open>Hemodynamic models: a shallow embedding of \<open>nistats/hemodynamic_models.py\<close>\<close>

text \<open>
  The module builds regressors for a design matrix: it samples the events of a
  condition on a fine time grid (\<open>_sample_condition\<close>), convolves the samples with
  the kernels of a hemodynamic model (\<open>_hrf_kernel\<close>), resamples the result at the
  frame times (\<open>_resample_regressor\<close>), orthogonalises the columns
  (\<open>_orthogonalize\<close>) and names them (\<open>_regressor_names\<close>);
  \<open>compute_regressor\<close> chains the five steps.

  Conventions of the embedding.
  \<^item> A Python name with a leading underscore loses it (\<open>_orthogonalize\<close> is
    \<open>orthogonalize\<close>); a name that clashes with a HOL constant gets a suffix.
  \<^item> A float is a \<open>real\<close>: arithmetic is exact, and the IEEE values \<open>inf\<close> and
    \<open>nan\<close> do not exist. Where Python raises on a division by zero
    (\<open>float / int\<close>, \<open>float / float\<close>) the model raises; where NumPy would produce
    \<open>inf\<close> or \<open>nan\<close> and a later conversion to \<open>int\<close> raises, the model raises
    there as well.
  \<^item> A one-dimensional array is a list; a two-dimensional array is the list of its
    rows, so \<open>X[:, i]\<close> is \<open>col X i\<close>.
  \<^item> An exception is a value of \<open>py_error\<close>, and a function that can raise returns
    \<open>py_error + 'a\<close>.
  \<^item> Two functions of other packages are parameters: \<open>scipy.stats.gamma.pdf\<close>
    (\<open>gpdf x a loc\<close>) and \<open>numpy.linalg.pinv\<close> (\<open>pinv\<close>). The NumPy and SciPy
    functions whose behaviour on the edge decides a result (\<open>linspace\<close>,
    \<open>searchsorted\<close>, \<open>convolve\<close>, \<open>interp1d\<close>, indexing with an index array) are
    written out, as the releases of the period of the source (2013) behave.
\<close>

subsection \<open>Exceptions\<close>

datatype py_error =
    ZeroDivisionError
  | ValueError string
  | IndexError
  | TypeError
  | OverflowError

subsection \<open>NumPy helpers\<close>

text \<open>\<open>int(x)\<close> on a float truncates towards zero.\<close>

definition py_int :: "real \<Rightarrow> int" where
  "py_int x = (if 0 \<le> x then \<lfloor>x\<rfloor> else \<lceil>x\<rceil>)"

text \<open>
  \<open>np.linspace(start, stop, num)\<close>, with the float \<open>num\<close> the source passes:
  \<^verbatim>\<open>
    num = int(num)
    if num <= 0: return array([], float)
    if num == 1: return array([float(start)])
    step = (stop-start)/float((num-1))
    y = _nx.arange(0, num) * step + start
    y[-1] = stop
  \<close>
\<close>

definition linspace :: "real \<Rightarrow> real \<Rightarrow> real \<Rightarrow> real list" where
  "linspace start stop num =
     (let n = py_int num in
      if n \<le> 0 then []
      else if n = 1 then [start]
      else (let step = (stop - start) / real_of_int (n - 1)
            in (map (\<lambda>k. real k * step + start) [0..<nat n])[nat n - 1 := stop]))"

text \<open>\<open>a.max()\<close> and \<open>a.min()\<close> raise \<open>ValueError\<close> on an empty array.\<close>

definition amax :: "real list \<Rightarrow> py_error + real" where
  "amax xs = (case xs of
       [] \<Rightarrow> Inl (ValueError ''zero-size array to reduction operation maximum which has no identity'')
     | x # r \<Rightarrow> Inr (fold max r x))"

definition amin :: "real list \<Rightarrow> py_error + real" where
  "amin xs = (case xs of
       [] \<Rightarrow> Inl (ValueError ''zero-size array to reduction operation minimum which has no identity'')
     | x # r \<Rightarrow> Inr (fold min r x))"

text \<open>
  \<open>np.searchsorted(a, v)\<close> (side \<open>left\<close>) is a binary search between \<open>0\<close> and
  \<open>len(a)\<close>:
  \<^verbatim>\<open>
    while (imin < imax) {
        imid = imin + ((imax - imin) >> 1);
        if (a[imid] < v) imin = imid + 1; else imax = imid;
    }
    return imin;
  \<close>
  On a sorted array the result is the first index \<open>i\<close> with \<open>v \<le> a[i]\<close>, and
  \<open>len(a)\<close> when there is none.
\<close>

function bisect_left :: "real list \<Rightarrow> real \<Rightarrow> nat \<Rightarrow> nat \<Rightarrow> nat" where
  "bisect_left a v imin imax =
     (if imin < imax then
        (let imid = imin + (imax - imin) div 2 in
         if a ! imid < v then bisect_left a v (imid + 1) imax
         else bisect_left a v imin imid)
      else imin)"
  by pat_completeness auto
termination
  by (relation "measure (\<lambda>(a, v, imin, imax). imax - imin)") auto

declare bisect_left.simps [simp del]

definition searchsorted :: "real list \<Rightarrow> real \<Rightarrow> nat" where
  "searchsorted a v = bisect_left a v 0 (length a)"

text \<open>
  An index of Python: \<open>-n \<le> i < 0\<close> counts from the end, anything outside
  \<open>-n \<le> i < n\<close> raises \<open>IndexError\<close>.
\<close>

definition norm_index :: "nat \<Rightarrow> int \<Rightarrow> py_error + nat" where
  "norm_index n i =
     (if 0 \<le> i \<and> i < int n then Inr (nat i)
      else if - int n \<le> i \<and> i < 0 then Inr (nat (i + int n))
      else Inl IndexError)"

fun norm_indices :: "nat \<Rightarrow> int list \<Rightarrow> py_error + nat list" where
  "norm_indices n [] = Inr []"
| "norm_indices n (i # is) =
     (case norm_index n i of
        Inl e \<Rightarrow> Inl e
      | Inr j \<Rightarrow> (case norm_indices n is of Inl e \<Rightarrow> Inl e | Inr js \<Rightarrow> Inr (j # js)))"

text \<open>
  \<open>r[idx] += vals\<close> and \<open>r[idx] -= vals\<close> with an index array \<open>idx\<close>: NumPy reads
  \<open>r[idx]\<close> into a temporary, applies the operation to the temporary, and writes
  the temporary back with \<open>r[idx] = ...\<close>, one index after the other. An index that
  occurs twice is therefore written twice, each time with a value computed from
  the array as it was before the statement.
\<close>

definition fancy_inplace ::
  "(real \<Rightarrow> real \<Rightarrow> real) \<Rightarrow> real list \<Rightarrow> int list \<Rightarrow> real list \<Rightarrow> py_error + real list" where
  "fancy_inplace f r idx vals =
     (case norm_indices (length r) idx of
        Inl e \<Rightarrow> Inl e
      | Inr js \<Rightarrow>
          Inr (fold (\<lambda>(j, v) acc. acc[j := v])
                 (zip js (map2 f (map (\<lambda>j. r ! j) js) vals)) r))"

text \<open>\<open>np.cumsum\<close>: the prefix sums.\<close>

fun cumsum_from :: "real \<Rightarrow> real list \<Rightarrow> real list" where
  "cumsum_from s [] = []"
| "cumsum_from s (x # xs) = (s + x) # cumsum_from (s + x) xs"

definition cumsum :: "real list \<Rightarrow> real list" where
  "cumsum xs = cumsum_from 0 xs"

text \<open>
  \<open>np.convolve(a, v)\<close> (mode \<open>full\<close>): \<open>len(a) + len(v) - 1\<close> samples, sample \<open>k\<close>
  the sum of \<open>a[j] * v[k - j]\<close>; an empty argument raises \<open>ValueError\<close>.
\<close>

definition np_convolve :: "real list \<Rightarrow> real list \<Rightarrow> py_error + real list" where
  "np_convolve a v =
     (if a = [] then Inl (ValueError ''a cannot be empty'')
      else if v = [] then Inl (ValueError ''v cannot be empty'')
      else Inr (map (\<lambda>k. sum_list (map (\<lambda>j. if k - j < length v then a ! j * v ! (k - j) else 0)
                                       [0..<min (Suc k) (length a)]))
                  [0..<length a + length v - 1]))"

subsection \<open>The kernel library\<close>

text \<open>
  \<open>_gamma_difference_hrf\<close>. \<open>tr / oversampling\<close> and \<open>float(time_length) / dt\<close>
  divide Python numbers and raise on a zero divisor; so do the four quotients by
  \<open>dispersion\<close> and \<open>u_dispersion\<close>, which every caller passes as a non-zero
  constant. \<open>hrf /= hrf.sum()\<close> divides arrays and does not raise.
\<close>

definition gamma_difference_hrf ::
  "(real \<Rightarrow> real \<Rightarrow> real \<Rightarrow> real) \<Rightarrow> real \<Rightarrow> int \<Rightarrow> real \<Rightarrow> real \<Rightarrow>
   real \<Rightarrow> real \<Rightarrow> real \<Rightarrow> real \<Rightarrow> real \<Rightarrow> py_error + real list" where
  "gamma_difference_hrf gpdf tr oversampling time_length onset
       delay undershoot dispersion u_dispersion ratio =
     (if oversampling = 0 then Inl ZeroDivisionError
      else let dt = tr / real_of_int oversampling in
      if dt = 0 then Inl ZeroDivisionError
      else let time_stamps = linspace 0 time_length (time_length / dt);
               time_stamps = map (\<lambda>t. t - onset / dt) time_stamps in
      if dispersion = 0 \<or> u_dispersion = 0 then Inl ZeroDivisionError
      else let hrf = map (\<lambda>t. gpdf t (delay / dispersion) (dt / dispersion)
                              - ratio * gpdf t (undershoot / u_dispersion) (dt / u_dispersion))
                         time_stamps;
               s = sum_list hrf
      in Inr (map (\<lambda>h. h / s) hrf))"

definition spm_hrf ::
  "(real \<Rightarrow> real \<Rightarrow> real \<Rightarrow> real) \<Rightarrow> real \<Rightarrow> int \<Rightarrow> real \<Rightarrow> real \<Rightarrow> py_error + real list" where
  "spm_hrf gpdf tr oversampling time_length onset =
     gamma_difference_hrf gpdf tr oversampling time_length onset 6 16 1 1 (167 / 1000)"

definition glover_hrf ::
  "(real \<Rightarrow> real \<Rightarrow> real \<Rightarrow> real) \<Rightarrow> real \<Rightarrow> int \<Rightarrow> real \<Rightarrow> real \<Rightarrow> py_error + real list" where
  "glover_hrf gpdf tr oversampling time_length onset =
     gamma_difference_hrf gpdf tr oversampling time_length onset 6 12 (9 / 10) (9 / 10) (35 / 100)"

text \<open>\<open>1. / d * (a - b)\<close> on two arrays, the left one evaluated first.\<close>

definition finite_difference ::
  "real \<Rightarrow> py_error + real list \<Rightarrow> py_error + real list \<Rightarrow> py_error + real list" where
  "finite_difference d a b =
     (case a of
        Inl e \<Rightarrow> Inl e
      | Inr xs \<Rightarrow> (case b of
           Inl e \<Rightarrow> Inl e
         | Inr ys \<Rightarrow> Inr (map (\<lambda>z. 1 / d * z) (map2 (-) xs ys))))"

definition spm_time_derivative ::
  "(real \<Rightarrow> real \<Rightarrow> real \<Rightarrow> real) \<Rightarrow> real \<Rightarrow> int \<Rightarrow> real \<Rightarrow> real \<Rightarrow> py_error + real list" where
  "spm_time_derivative gpdf tr oversampling time_length onset =
     (let do = 1 / 10 in
      finite_difference do (spm_hrf gpdf tr oversampling time_length (onset + do))
                           (spm_hrf gpdf tr oversampling time_length onset))"

definition glover_time_derivative ::
  "(real \<Rightarrow> real \<Rightarrow> real \<Rightarrow> real) \<Rightarrow> real \<Rightarrow> int \<Rightarrow> real \<Rightarrow> real \<Rightarrow> py_error + real list" where
  "glover_time_derivative gpdf tr oversampling time_length onset =
     (let do = 1 / 10 in
      finite_difference do (glover_hrf gpdf tr oversampling time_length (onset + do))
                           (glover_hrf gpdf tr oversampling time_length onset))"

definition spm_dispersion_derivative ::
  "(real \<Rightarrow> real \<Rightarrow> real \<Rightarrow> real) \<Rightarrow> real \<Rightarrow> int \<Rightarrow> real \<Rightarrow> real \<Rightarrow> py_error + real list" where
  "spm_dispersion_derivative gpdf tr oversampling time_length onset =
     (let dd = 1 / 100 in
      finite_difference dd
        (gamma_difference_hrf gpdf tr oversampling time_length onset 6 16 (1 + dd) 1 (167 / 1000))
        (spm_hrf gpdf tr oversampling time_length onset))"

subsection \<open>The kernel selector and the names\<close>

text \<open>A list display \<open>[k1, k2, ...]\<close> of kernels: the first one that raises decides.\<close>

fun kernel_list :: "(py_error + real list) list \<Rightarrow> py_error + real list list" where
  "kernel_list [] = Inr []"
| "kernel_list (k # ks) =
     (case k of
        Inl e \<Rightarrow> Inl e
      | Inr h \<Rightarrow> (case kernel_list ks of Inl e \<Rightarrow> Inl e | Inr hs \<Rightarrow> Inr (h # hs)))"

text \<open>
  \<open>np.hstack((np.zeros(f * oversampling), np.ones(oversampling)))\<close>: a negative
  length raises \<open>ValueError\<close>.
\<close>

definition fir_kernel :: "int \<Rightarrow> int \<Rightarrow> py_error + real list" where
  "fir_kernel oversampling f =
     (if f * oversampling < 0 \<or> oversampling < 0
      then Inl (ValueError ''negative dimensions are not allowed'')
      else Inr (replicate (nat (f * oversampling)) 0 @ replicate (nat oversampling) 1))"

text \<open>
  \<open>_hrf_kernel\<close>; the kernels are built with the default \<open>time_length=32.\<close> and
  \<open>onset=0.\<close>. \<open>fir_delays\<close> is \<open>None\<close> by default, and iterating over \<open>None\<close>
  raises \<open>TypeError\<close>.
\<close>

definition hrf_kernel ::
  "(real \<Rightarrow> real \<Rightarrow> real \<Rightarrow> real) \<Rightarrow> string \<Rightarrow> real \<Rightarrow> int \<Rightarrow> int list option \<Rightarrow>
   py_error + real list list" where
  "hrf_kernel gpdf hrf_model tr oversampling fir_delays =
     (if hrf_model = ''spm'' then
        kernel_list [spm_hrf gpdf tr oversampling 32 0]
      else if hrf_model = ''spm_time'' then
        kernel_list [spm_hrf gpdf tr oversampling 32 0,
                     spm_time_derivative gpdf tr oversampling 32 0]
      else if hrf_model = ''spm_time_dispersion'' then
        kernel_list [spm_hrf gpdf tr oversampling 32 0,
                     spm_time_derivative gpdf tr oversampling 32 0,
                     spm_dispersion_derivative gpdf tr oversampling 32 0]
      else if hrf_model = ''canonical'' then
        kernel_list [glover_hrf gpdf tr oversampling 32 0]
      else if hrf_model = ''canonical with derivative'' then
        kernel_list [glover_hrf gpdf tr oversampling 32 0,
                     glover_time_derivative gpdf tr oversampling 32 0]
      else if hrf_model = ''fir'' then
        (case fir_delays of
           None \<Rightarrow> Inl TypeError
         | Some ds \<Rightarrow> kernel_list (map (fir_kernel oversampling) ds))
      else Inl (ValueError ''Unknown hrf model''))"

text \<open>\<open>"%d" % i\<close> for an integer \<open>i\<close>: its decimal digits, after a minus sign when negative.\<close>

fun str_nat :: "nat \<Rightarrow> string" where
  "str_nat n = (if n < 10 then [''0123456789'' ! n]
                else str_nat (n div 10) @ [''0123456789'' ! (n mod 10)])"

declare str_nat.simps [simp del]

definition format_d :: "int \<Rightarrow> string" where
  "format_d i = (if i < 0 then ''-'' @ str_nat (nat (- i)) else str_nat (nat i))"

text \<open>
  \<open>_regressor_names\<close>. The chain of \<open>if\<close>/\<open>elif\<close> has no \<open>else\<close>: for any other
  model the function ends without a \<open>return\<close>, and the caller gets \<open>None\<close>, here
  \<open>Inr None\<close>.
\<close>

definition regressor_names ::
  "string \<Rightarrow> string \<Rightarrow> int list option \<Rightarrow> py_error + string list option" where
  "regressor_names con_name hrf_model fir_delays =
     (if hrf_model = ''canonical'' then Inr (Some [con_name])
      else if hrf_model = ''canonical with derivative'' then
        Inr (Some [con_name, con_name @ ''_derivative''])
      else if hrf_model = ''spm'' then Inr (Some [con_name])
      else if hrf_model = ''spm_time'' then
        Inr (Some [con_name, con_name @ ''_derivative''])
      else if hrf_model = ''spm_time_dispersion'' then
        Inr (Some [con_name, con_name @ ''_derivative'', con_name @ ''_dispersion''])
      else if hrf_model = ''fir'' then
        (case fir_delays of
           None \<Rightarrow> Inl TypeError
         | Some ds \<Rightarrow> Inr (Some (map (\<lambda>i. con_name @ ''_delay_'' @ format_d i) ds)))
      else Inr None)"

text \<open>The six identifiers the kernel selector knows.\<close>

definition supported_models :: "string list" where
  "supported_models =
     [''spm'', ''spm_time'', ''spm_time_dispersion'',
      ''canonical'', ''canonical with derivative'', ''fir'']"

subsection \<open>The event sampler\<close>

text \<open>
  The sample count of the fine grid, lines 185 to 187 of the source, from
  \<open>n = frame_times.size\<close>, the maximum \<open>mx\<close> and the minimum \<open>mn\<close> of the frame
  times:
  \<^verbatim>\<open>
    n_hr = ((n - 1) * 1. / (frame_times.max() - frame_times.min()) *
            (frame_times.max() * (1 + 1. / (n - 1)) - frame_times.min() -
             min_onset) * oversampling) + 1
  \<close>
\<close>

text \<open>
  \<open>n_hr\<close> is the value of this expression in exact arithmetic. The source
  evaluates it in double precision, and the double can differ from the exact
  value in the last place: for the frame times \<open>[0, 3]\<close>, oversampling \<open>3\<close> and
  \<open>min_onset = -1\<close> the exact value is \<open>8\<close> and the double is
  \<open>7.999999999999999\<close>. What is stated about the number of samples is therefore
  stated for \<open>hr_grid_of_count\<close> below, which takes the computed value as an
  argument.
\<close>

definition n_hr :: "nat \<Rightarrow> real \<Rightarrow> real \<Rightarrow> real \<Rightarrow> int \<Rightarrow> real" where
  "n_hr n mx mn min_onset oversampling =
     ((real n - 1) * 1 / (mx - mn) *
      (mx * (1 + 1 / (real n - 1)) - mn - min_onset) * real_of_int oversampling) + 1"

text \<open>
  The fine grid, lines 183 to 191. On an empty \<open>frame_times\<close> the call
  \<open>frame_times.max()\<close> raises; with one frame time \<open>1. / (n - 1)\<close> divides a Python
  float by the Python integer zero and raises. With \<open>mx = mn\<close> the quotient by
  \<open>mx - mn\<close> is a NumPy division, which gives \<open>inf\<close>; \<open>n_hr\<close> is then \<open>inf\<close>,
  \<open>-inf\<close> or \<open>nan\<close> (\<open>nan\<close> when a factor is zero), and \<open>int(num)\<close> in \<open>linspace\<close>
  raises \<open>OverflowError\<close> or \<open>ValueError\<close>.
\<close>

text \<open>The grid is the array \<open>hr_frame_times\<close> of the source.\<close>

definition hr_grid :: "real list \<Rightarrow> int \<Rightarrow> real \<Rightarrow> py_error + real list" where
  "hr_grid frame_times oversampling min_onset =
     (let n = length frame_times in
      case amax frame_times of
        Inl e \<Rightarrow> Inl e
      | Inr mx \<Rightarrow>
     (case amin frame_times of
        Inl e \<Rightarrow> Inl e
      | Inr mn \<Rightarrow>
          if n = 1 then Inl ZeroDivisionError
          else if mx = mn then
            (if mx * (1 + 1 / (real n - 1)) - mn - min_onset = 0 \<or> oversampling = 0
             then Inl (ValueError ''cannot convert float NaN to integer'')
             else Inl OverflowError)
          else Inr (linspace (mn + min_onset) (mx * (1 + 1 / (real n - 1)))
                      (n_hr n mx mn min_onset oversampling))))"

text \<open>
  Lines 189 to 191 for a value \<open>num\<close> of \<open>n_hr\<close>, whatever the evaluation of
  lines 185 to 187 gave:
  \<^verbatim>\<open>
    hr_frame_times = np.linspace(frame_times.min() + min_onset,
                                frame_times.max() * (1 + 1. / (n - 1)),
                                n_hr)
  \<close>
\<close>

definition hr_grid_of_count :: "real \<Rightarrow> real list \<Rightarrow> real \<Rightarrow> py_error + real list" where
  "hr_grid_of_count num frame_times min_onset =
     (let n = length frame_times in
      case amax frame_times of
        Inl e \<Rightarrow> Inl e
      | Inr mx \<Rightarrow>
     (case amin frame_times of
        Inl e \<Rightarrow> Inl e
      | Inr mn \<Rightarrow>
          if n = 1 then Inl ZeroDivisionError
          else Inr (linspace (mn + min_onset) (mx * (1 + 1 / (real n - 1))) num)))"

text \<open>
  The condition: the source takes a \<open>3 x n_events\<close> array, the rows being the
  onsets, the durations and the amplitudes. Here it is the list of its columns,
  one triple per event.
\<close>

type_synonym event = "real \<times> real \<times> real"

definition onsets :: "event list \<Rightarrow> real list" where
  "onsets exp_condition = map fst exp_condition"

definition durations :: "event list \<Rightarrow> real list" where
  "durations exp_condition = map (\<lambda>e. fst (snd e)) exp_condition"

definition amplitudes :: "event list \<Rightarrow> real list" where
  "amplitudes exp_condition = map (\<lambda>e. snd (snd e)) exp_condition"

text \<open>\<open>np.minimum(np.searchsorted(hr_frame_times, ts), tmax - 1)\<close>.\<close>

definition clamped_search :: "real list \<Rightarrow> real list \<Rightarrow> int list" where
  "clamped_search hr ts =
     map (\<lambda>t. min (int (searchsorted hr t)) (int (length hr) - 1)) ts"

text \<open>
  The loop of lines 209 to 211: each pass reads and writes the element \<open>i\<close> of
  \<open>t_offset\<close> only, so the loop is a map over the pairs of indices.
  \<^verbatim>\<open>
    for i, to in enumerate(t_offset):
        if to < (tmax - 1) and to == t_onset[i]:
            t_offset[i] += 1
  \<close>
\<close>

definition bump_offsets :: "int \<Rightarrow> int list \<Rightarrow> int list \<Rightarrow> int list" where
  "bump_offsets tmax t_onset t_offset =
     map2 (\<lambda>on to. if to < tmax - 1 \<and> to = on then to + 1 else to) t_onset t_offset"

definition t_onset :: "real list \<Rightarrow> event list \<Rightarrow> int list" where
  "t_onset hr exp_condition = clamped_search hr (onsets exp_condition)"

text \<open>\<open>t_offset\<close> as line 205 computes it, before the loop.\<close>

definition raw_offset :: "real list \<Rightarrow> event list \<Rightarrow> int list" where
  "raw_offset hr exp_condition =
     clamped_search hr (map2 (+) (onsets exp_condition) (durations exp_condition))"

definition t_offset :: "real list \<Rightarrow> event list \<Rightarrow> int list" where
  "t_offset hr exp_condition =
     bump_offsets (int (length hr)) (t_onset hr exp_condition) (raw_offset hr exp_condition)"

text \<open>The regressor on the grid \<open>hr\<close>, lines 201 to 214.\<close>

definition event_regressor :: "real list \<Rightarrow> event list \<Rightarrow> py_error + real list" where
  "event_regressor hr exp_condition =
     (let regressor = replicate (length hr) 0 in
      case fancy_inplace (+) regressor (t_onset hr exp_condition) (amplitudes exp_condition) of
        Inl e \<Rightarrow> Inl e
      | Inr regressor \<Rightarrow>
     (case fancy_inplace (-) regressor (t_offset hr exp_condition) (amplitudes exp_condition) of
        Inl e \<Rightarrow> Inl e
      | Inr regressor \<Rightarrow> Inr (cumsum regressor)))"

text \<open>
  \<open>_sample_condition\<close>. When an onset is earlier than
  \<open>frame_times[0] + min_onset\<close> the source issues a \<open>UserWarning\<close> (lines 195 to
  198) and goes on: the warning changes neither the indices nor the result, and
  the model leaves it out.
\<close>

definition sample_condition ::
  "event list \<Rightarrow> real list \<Rightarrow> int \<Rightarrow> real \<Rightarrow> py_error + (real list \<times> real list)" where
  "sample_condition exp_condition frame_times oversampling min_onset =
     (case hr_grid frame_times oversampling min_onset of
        Inl e \<Rightarrow> Inl e
      | Inr hr \<Rightarrow>
          (case event_regressor hr exp_condition of
             Inl e \<Rightarrow> Inl e
           | Inr regressor \<Rightarrow> Inr (regressor, hr)))"

text \<open>
  The regressor in the words of the specification, for comparison with
  \<open>event_regressor\<close>: a delta array that holds, at each grid index, the sum of the
  amplitudes of the events whose onset index it is minus the sum of the
  amplitudes of the events whose offset index it is, and then its prefix sums.
\<close>

definition delta_array :: "nat \<Rightarrow> int list \<Rightarrow> int list \<Rightarrow> real list \<Rightarrow> real list" where
  "delta_array tmax ons offs vals =
     map (\<lambda>k. sum_list (map (\<lambda>(on, v). if on = int k then v else 0) (zip ons vals))
              - sum_list (map (\<lambda>(off, v). if off = int k then v else 0) (zip offs vals)))
         [0..<tmax]"

definition accumulated_regressor :: "real list \<Rightarrow> event list \<Rightarrow> real list" where
  "accumulated_regressor hr exp_condition =
     cumsum (delta_array (length hr) (t_onset hr exp_condition) (t_offset hr exp_condition)
               (amplitudes exp_condition))"

subsection \<open>Convolution and resampling\<close>

text \<open>
  Step 3 of \<open>compute_regressor\<close>:
  \<^verbatim>\<open>
    conv_reg = np.array([np.convolve(hr_regressor, h)[:hr_regressor.size]
                         for h in hkernel])
  \<close>
\<close>

fun convolve_all :: "real list \<Rightarrow> real list list \<Rightarrow> py_error + real list list" where
  "convolve_all hr_regressor [] = Inr []"
| "convolve_all hr_regressor (h # hs) =
     (case np_convolve hr_regressor h of
        Inl e \<Rightarrow> Inl e
      | Inr c \<Rightarrow> (case convolve_all hr_regressor hs of
           Inl e \<Rightarrow> Inl e
         | Inr cs \<Rightarrow> Inr (take (length hr_regressor) c # cs)))"

text \<open>
  The linear interpolation of \<open>interp1d\<close> at one point \<open>x_new\<close>, for one row \<open>y\<close>:
  \<^verbatim>\<open>
    x_new_indices = searchsorted(self.x, x_new)
    x_new_indices = x_new_indices.clip(1, len(self.x)-1).astype(int)
    lo = x_new_indices - 1
    hi = x_new_indices
    slope = (y_hi - y_lo) / (x_hi - x_lo)[:, None]
    y_new = slope*(x_new - x_lo)[:, None] + y_lo
  \<close>
\<close>

definition interp_linear :: "real list \<Rightarrow> real list \<Rightarrow> real \<Rightarrow> real" where
  "interp_linear x y x_new =
     (let hi = min (max (searchsorted x x_new) 1) (length x - 1);
          lo = hi - 1;
          slope = (y ! hi - y ! lo) / (x ! hi - x ! lo)
      in slope * (x_new - x ! lo) + y ! lo)"

text \<open>The transpose \<open>.T\<close> of an array of rows of length \<open>n\<close>.\<close>

definition transpose_array :: "nat \<Rightarrow> real list list \<Rightarrow> real list list" where
  "transpose_array n rows = map (\<lambda>i. map (\<lambda>row. row ! i) rows) [0..<n]"

text \<open>
  \<open>_resample_regressor\<close>, called with the array \<open>conv_reg\<close> of one row per kernel:
  \<open>interp1d(hr_frame_times, hr_regressor)\<close> interpolates along the last axis, and
  raises \<open>ValueError\<close> when that axis and \<open>hr_frame_times\<close> differ in length (the
  array of no rows, \<open>np.array([])\<close>, has a last axis of length zero), when there
  are fewer than two points, and when a frame time lies before the first or
  after the last point of the grid.
\<close>

definition resample_regressor ::
  "real list list \<Rightarrow> real list \<Rightarrow> real list \<Rightarrow> py_error + real list list" where
  "resample_regressor hr_regressor hr_frame_times frame_times =
     (let len_x = length hr_frame_times;
          len_y = (case hr_regressor of [] \<Rightarrow> 0 | y # _ \<Rightarrow> length y) in
      if len_x \<noteq> len_y then
        Inl (ValueError ''x and y arrays must be equal in length along interpolation axis.'')
      else if len_x < 2 then
        Inl (ValueError ''x and y arrays must have at least 2 entries'')
      else if list_ex (\<lambda>t. t < hd hr_frame_times) frame_times then
        Inl (ValueError ''A value in x_new is below the interpolation range.'')
      else if list_ex (\<lambda>t. last hr_frame_times < t) frame_times then
        Inl (ValueError ''A value in x_new is above the interpolation range.'')
      else Inr (transpose_array (length frame_times)
                  (map (\<lambda>y. map (interp_linear hr_frame_times y) frame_times) hr_regressor)))"

subsection \<open>The orthogonalizer\<close>

text \<open>
  Arrays of two dimensions: \<open>X.size\<close>, \<open>X.shape[1]\<close>, the column \<open>X[:, i]\<close>, the
  leading columns \<open>X[:, :i]\<close>, the products \<open>np.dot(x, y)\<close> of two vectors,
  \<open>np.dot(x, M)\<close> of a vector and a matrix and \<open>np.dot(A, B)\<close> of two matrices,
  and the update \<open>X[:, i] -= v\<close>.
\<close>

definition array_size :: "real list list \<Rightarrow> nat" where
  "array_size X = sum_list (map length X)"

definition ncols :: "real list list \<Rightarrow> nat" where
  "ncols X = (case X of [] \<Rightarrow> 0 | row # _ \<Rightarrow> length row)"

definition col :: "real list list \<Rightarrow> nat \<Rightarrow> real list" where
  "col X i = map (\<lambda>row. row ! i) X"

definition cols_upto :: "real list list \<Rightarrow> nat \<Rightarrow> real list list" where
  "cols_upto X i = map (take i) X"

definition dot :: "real list \<Rightarrow> real list \<Rightarrow> real" where
  "dot x y = sum_list (map2 (*) x y)"

definition vec_mat :: "real list \<Rightarrow> real list list \<Rightarrow> real list" where
  "vec_mat x M = map (\<lambda>j. dot x (col M j)) [0..<ncols M]"

definition mat_mul :: "real list list \<Rightarrow> real list list \<Rightarrow> real list list" where
  "mat_mul A B = map (\<lambda>row. vec_mat row B) A"

definition isub_col :: "real list list \<Rightarrow> nat \<Rightarrow> real list \<Rightarrow> real list list" where
  "isub_col X i v = map (\<lambda>r. (X ! r)[i := X ! r ! i - v ! r]) [0..<length X]"

text \<open>
  One pass of the loop of \<open>_orthogonalize\<close>:
  \<^verbatim>\<open>
    X[:, i] -= np.dot(X[:, i], np.dot(X[:, :i], pinv(X[:, :i])))
  \<close>
  \<open>pinv\<close> is \<open>numpy.linalg.pinv\<close>; for a matrix of \<open>n\<close> rows and \<open>i\<close> columns it
  returns one of \<open>i\<close> rows and \<open>n\<close> columns, so that the products are defined and
  the vector subtracted from the column has \<open>n\<close> entries.
\<close>

definition orth_step ::
  "(real list list \<Rightarrow> real list list) \<Rightarrow> real list list \<Rightarrow> nat \<Rightarrow> real list list" where
  "orth_step pinv X i =
     isub_col X i (vec_mat (col X i) (mat_mul (cols_upto X i) (pinv (cols_upto X i))))"

text \<open>
  \<open>_orthogonalize\<close>. The source changes \<open>X\<close> in place and returns it; the model
  returns the new array.
\<close>

definition orthogonalize ::
  "(real list list \<Rightarrow> real list list) \<Rightarrow> real list list \<Rightarrow> real list list" where
  "orthogonalize pinv X =
     (if array_size X = length X then X
      else fold (\<lambda>i X. orth_step pinv X i) [1..<ncols X] X)"

subsection \<open>The whole computation\<close>

text \<open>
  \<open>compute_regressor\<close>. \<open>float(frame_times.max()) / (np.size(frame_times) - 1)\<close>
  divides a Python float by a Python integer, and raises when there is one
  frame time.
\<close>

definition compute_regressor ::
  "(real \<Rightarrow> real \<Rightarrow> real \<Rightarrow> real) \<Rightarrow> (real list list \<Rightarrow> real list list) \<Rightarrow>
   event list \<Rightarrow> string \<Rightarrow> real list \<Rightarrow> string \<Rightarrow> int \<Rightarrow> int list option \<Rightarrow> real \<Rightarrow>
   py_error + (real list list \<times> string list option)" where
  "compute_regressor gpdf pinv exp_condition hrf_model frame_times con_id
       oversampling fir_delays min_onset =
     (case amax frame_times of
        Inl e \<Rightarrow> Inl e
      | Inr mx \<Rightarrow>
          if length frame_times = 1 then Inl ZeroDivisionError
          else let tr = mx / (real (length frame_times) - 1) in
     (case sample_condition exp_condition frame_times oversampling min_onset of
        Inl e \<Rightarrow> Inl e
      | Inr (hr_regressor, hr_frame_times) \<Rightarrow>
     (case hrf_kernel gpdf hrf_model tr oversampling fir_delays of
        Inl e \<Rightarrow> Inl e
      | Inr hkernel \<Rightarrow>
     (case convolve_all hr_regressor hkernel of
        Inl e \<Rightarrow> Inl e
      | Inr conv_reg \<Rightarrow>
     (case resample_regressor conv_reg hr_frame_times frame_times of
        Inl e \<Rightarrow> Inl e
      | Inr creg \<Rightarrow>
          let creg = (if hrf_model \<noteq> ''fir'' then orthogonalize pinv creg else creg) in
     (case regressor_names con_id hrf_model fir_delays of
        Inl e \<Rightarrow> Inl e
      | Inr reg_names \<Rightarrow> Inr (creg, reg_names)))))))"

section \<open>Properties\<close>

subsection \<open>The names of an unknown model\<close>

text \<open>
  Claim C10. Called on its own with a model identifier outside the six supported
  ones, the naming operation does not raise: it returns \<open>None\<close>. The kernel
  selector raises \<open>ValueError('Unknown hrf model')\<close> for the same identifier.
\<close>

theorem regressor_names_unknown_model:
  assumes "hrf_model \<notin> set supported_models"
  shows "regressor_names con_name hrf_model fir_delays = Inr None
       \<and> hrf_kernel gpdf hrf_model tr oversampling fir_delays
           = Inl (ValueError ''Unknown hrf model'')"
  using assms by (simp add: regressor_names_def hrf_kernel_def supported_models_def)

theorem regressor_names_unknown_model_witness:
  "''glover'' \<notin> set supported_models
   \<and> regressor_names ''cond'' ''glover'' None = Inr None
   \<and> hrf_kernel (\<lambda>x a loc. 0) ''glover'' 2 16 None = Inl (ValueError ''Unknown hrf model'')"
  using regressor_names_unknown_model [of "''glover''" "''cond''" None "\<lambda>x a loc. 0" 2 16]
  by (simp add: supported_models_def)

subsection \<open>Indices of the event sampler\<close>

lemma bisect_left_bounds:
  "imin \<le> imax \<Longrightarrow> imin \<le> bisect_left a v imin imax \<and> bisect_left a v imin imax \<le> imax"
proof (induction a v imin imax rule: bisect_left.induct)
  case (1 a v imin imax)
  show ?case
  proof (cases "imin < imax")
    case True
    let ?imid = "imin + (imax - imin) div 2"
    from True have m: "imin \<le> ?imid" "?imid < imax" by simp_all
    show ?thesis
    proof (cases "a ! ?imid < v")
      case lt: True
      with True m "1.IH"(1) [of ?imid] show ?thesis
        by (subst (1 2) bisect_left.simps) (simp add: Let_def)
    next
      case ge: False
      with True m "1.IH"(2) [of ?imid] show ?thesis
        by (subst (1 2) bisect_left.simps) (simp add: Let_def)
    qed
  next
    case False
    with "1.prems" show ?thesis by (subst (1 2) bisect_left.simps) simp
  qed
qed

lemma searchsorted_le: "searchsorted a v \<le> length a"
  using bisect_left_bounds [of 0 "length a" a v] by (simp add: searchsorted_def)

lemma clamped_search_bounds:
  assumes "hr \<noteq> []" and "t \<in> set (clamped_search hr ts)"
  shows "0 \<le> t \<and> t \<le> int (length hr) - 1"
  using assms searchsorted_le [of hr] by (auto simp: clamped_search_def min_def)

lemma clamped_search_le: "i < length ts \<Longrightarrow> clamped_search hr ts ! i \<le> int (length hr) - 1"
  by (simp add: clamped_search_def)

lemma length_clamped_search [simp]: "length (clamped_search hr ts) = length ts"
  by (simp add: clamped_search_def)

lemma length_t_onset [simp]: "length (t_onset hr ec) = length ec"
  by (simp add: t_onset_def onsets_def)

lemma length_raw_offset [simp]: "length (raw_offset hr ec) = length ec"
  by (simp add: raw_offset_def onsets_def durations_def)

lemma length_t_offset [simp]: "length (t_offset hr ec) = length ec"
  by (simp add: t_offset_def bump_offsets_def)

lemma t_offset_nth:
  assumes "i < length ec"
  shows "t_offset hr ec ! i =
     (if raw_offset hr ec ! i < int (length hr) - 1 \<and> raw_offset hr ec ! i = t_onset hr ec ! i
      then raw_offset hr ec ! i + 1 else raw_offset hr ec ! i)"
  using assms by (simp add: t_offset_def bump_offsets_def)

lemma t_onset_bounds:
  assumes "hr \<noteq> []" and "t \<in> set (t_onset hr ec)"
  shows "0 \<le> t \<and> t \<le> int (length hr) - 1"
  using assms clamped_search_bounds unfolding t_onset_def by blast

lemma t_offset_bounds:
  assumes "hr \<noteq> []" and "t \<in> set (t_offset hr ec)"
  shows "0 \<le> t \<and> t \<le> int (length hr) - 1"
proof -
  from assms(2) obtain i where i: "i < length ec" and t: "t = t_offset hr ec ! i"
    by (auto simp: in_set_conv_nth)
  have "raw_offset hr ec ! i \<in> set (raw_offset hr ec)"
    using i by simp
  then have "0 \<le> raw_offset hr ec ! i \<and> raw_offset hr ec ! i \<le> int (length hr) - 1"
    using clamped_search_bounds [OF assms(1)] unfolding raw_offset_def by blast
  then show ?thesis
    unfolding t t_offset_nth [OF i] by auto
qed

lemma norm_indices_ok:
  "\<forall>i \<in> set idx. 0 \<le> i \<and> i < int n \<Longrightarrow> norm_indices n idx = Inr (map nat idx)"
  by (induction idx) (auto simp: norm_index_def)

lemma length_scatter [simp]:
  "length (fold (\<lambda>(j, v) acc. acc[j := v]) ps r) = length r"
  by (induction ps arbitrary: r) auto

lemma fancy_inplace_ok:
  assumes "\<forall>i \<in> set idx. 0 \<le> i \<and> i \<le> int (length r) - 1"
  shows "\<exists>r'. fancy_inplace f r idx vals = Inr r' \<and> length r' = length r"
proof -
  have "norm_indices (length r) idx = Inr (map nat idx)"
    using assms by (intro norm_indices_ok) auto
  then show ?thesis by (simp add: fancy_inplace_def)
qed

lemma length_cumsum_from [simp]: "length (cumsum_from s xs) = length xs"
  by (induction xs arbitrary: s) auto

lemma event_regressor_ok:
  assumes "hr \<noteq> []"
  shows "\<exists>reg. event_regressor hr ec = Inr reg \<and> length reg = length hr"
proof -
  let ?r0 = "replicate (length hr) (0::real)"
  have "\<forall>i \<in> set (t_onset hr ec). 0 \<le> i \<and> i \<le> int (length ?r0) - 1"
    using t_onset_bounds [OF assms] by simp
  from fancy_inplace_ok [OF this] obtain r1 where
    r1: "fancy_inplace (+) ?r0 (t_onset hr ec) (amplitudes ec) = Inr r1" "length r1 = length hr"
    by auto
  have "\<forall>i \<in> set (t_offset hr ec). 0 \<le> i \<and> i \<le> int (length r1) - 1"
    using t_offset_bounds [OF assms] r1(2) by simp
  from fancy_inplace_ok [OF this] obtain r2 where
    r2: "fancy_inplace (-) r1 (t_offset hr ec) (amplitudes ec) = Inr r2" "length r2 = length hr"
    using r1(2) by auto
  with r1 r2 show ?thesis by (simp add: event_regressor_def cumsum_def)
qed

text \<open>
  Claim C7. On a grid with at least one sample, every index the event sampler
  reads or writes, the onset index and the offset index after the loop of lines
  209 to 211, lies between \<open>0\<close> and \<open>tmax - 1\<close>, wherever the onset and the
  offset of the event lie (before the first sample of the grid, after the last
  one); both indexed updates succeed, and \<open>_sample_condition\<close> returns the
  regressor and the grid.
\<close>

theorem sampler_indices_in_bounds:
  assumes "hr \<noteq> []"
  shows "(\<forall>t \<in> set (t_onset hr exp_condition). 0 \<le> t \<and> t \<le> int (length hr) - 1)
       \<and> (\<forall>t \<in> set (t_offset hr exp_condition). 0 \<le> t \<and> t \<le> int (length hr) - 1)
       \<and> (\<exists>regressor. event_regressor hr exp_condition = Inr regressor)
       \<and> (hr_grid frame_times oversampling min_onset = Inr hr
            \<longrightarrow> (\<exists>regressor. sample_condition exp_condition frame_times oversampling min_onset
                    = Inr (regressor, hr)))"
proof -
  from event_regressor_ok [OF assms] obtain reg
    where reg: "event_regressor hr exp_condition = Inr reg" by blast
  then have "hr_grid frame_times oversampling min_onset = Inr hr
      \<longrightarrow> (\<exists>regressor. sample_condition exp_condition frame_times oversampling min_onset
              = Inr (regressor, hr))"
    by (simp add: sample_condition_def)
  with reg t_onset_bounds [OF assms] t_offset_bounds [OF assms] show ?thesis
    by blast
qed

theorem sampler_indices_in_bounds_witness:
  "[0, 1, 2 :: real] \<noteq> []
   \<and> hr_grid [0, 1] 1 0 = Inr [0, 1, 2]
   \<and> t_onset [0, 1, 2] [(-7, 1, 1), (9, 0, 2), (2, 0, 3)] = [0, 2, 2]
   \<and> t_offset [0, 1, 2] [(-7, 1, 1), (9, 0, 2), (2, 0, 3)] = [1, 2, 2]
   \<and> event_regressor [0, 1, 2] [(-7, 1, 1), (9, 0, 2), (2, 0, 3)] = Inr [1, 0, 0]
   \<and> sample_condition [(-7, 1, 1), (9, 0, 2), (2, 0, 3)] [0, 1] 1 0 = Inr ([1, 0, 0], [0, 1, 2])"
proof -
  have g: "hr_grid [0, 1] 1 0 = Inr [0, 1, 2]" by code_simp
  have a: "t_onset [0, 1, 2] [(-7, 1, 1), (9, 0, 2), (2, 0, 3)] = [0, 2, 2]" by code_simp
  have b: "t_offset [0, 1, 2] [(-7, 1, 1), (9, 0, 2), (2, 0, 3)] = [1, 2, 2]" by code_simp
  have c: "event_regressor [0, 1, 2] [(-7, 1, 1), (9, 0, 2), (2, 0, 3)] = Inr [1, 0, 0]" by code_simp
  have d: "sample_condition [(-7, 1, 1), (9, 0, 2), (2, 0, 3)] [0, 1] 1 0 = Inr ([1, 0, 0], [0, 1, 2])"
    by code_simp
  show ?thesis
    using sampler_indices_in_bounds [of "[0, 1, 2]" "[(-7, 1, 1), (9, 0, 2), (2, 0, 3)]" "[0, 1]" 1 0]
    unfolding g a b c d by simp
qed

text \<open>
  The loop of lines 209 to 211, for the event \<open>i\<close>: when the offset index of line
  205 equals the onset index and that index is not the last one of the grid, the
  offset index becomes the onset index plus one, so the two differ; when the
  shared index is the last one, the offset index stays; when the two indices
  differ from the start, the offset index stays as well.
\<close>

lemma edge_bump_indices:
  assumes "i < length exp_condition"
  shows "(raw_offset hr exp_condition ! i = t_onset hr exp_condition ! i
            \<and> t_onset hr exp_condition ! i \<noteq> int (length hr) - 1
          \<longrightarrow> t_offset hr exp_condition ! i = t_onset hr exp_condition ! i + 1
              \<and> t_offset hr exp_condition ! i \<noteq> t_onset hr exp_condition ! i)
       \<and> (raw_offset hr exp_condition ! i = t_onset hr exp_condition ! i
            \<and> t_onset hr exp_condition ! i = int (length hr) - 1
          \<longrightarrow> t_offset hr exp_condition ! i = t_onset hr exp_condition ! i)
       \<and> (raw_offset hr exp_condition ! i \<noteq> t_onset hr exp_condition ! i
          \<longrightarrow> t_offset hr exp_condition ! i = raw_offset hr exp_condition ! i)"
proof -
  have "t_onset hr exp_condition ! i \<le> int (length hr) - 1"
    using assms unfolding t_onset_def by (intro clamped_search_le) (simp add: onsets_def)
  then show ?thesis
    unfolding t_offset_nth [OF assms] by auto
qed

text \<open>
  Claim C4 says that an event whose offset index was moved one past its onset
  index contributes a step of non-zero width. The loop does move the index, but
  the step is written with \<open>regressor[t_onset] += values\<close> and
  \<open>regressor[t_offset] -= values\<close>, which do not accumulate over an index that
  occurs twice. For the frame times \<open>[0, 1]\<close>, oversampling \<open>1\<close>, \<open>min_onset = 0\<close>
  (the grid \<open>[0, 1, 2]\<close>), an event of duration \<open>0\<close> at \<open>0\<close> and an event of
  duration \<open>1\<close> at \<open>0\<close>, both of amplitude \<open>1\<close>: the onset indices are \<open>[0, 0]\<close>,
  the offset indices of line 205 are \<open>[0, 1]\<close>, and the loop makes them \<open>[1, 1]\<close>.
  The source returns \<open>[1, 0, 0]\<close>, which is also what it returns for the second
  event alone: the event of duration \<open>0\<close> contributes nothing, where the sum of the
  amplitudes of the active events is \<open>[2, 0, 0]\<close>.
\<close>

theorem zero_duration_event_shared_index:
  "hr_grid [0, 1] 1 0 = Inr [0, 1, 2]
   \<and> t_onset [0, 1, 2] [(0, 0, 1), (0, 1, 1)] = [0, 0]
   \<and> raw_offset [0, 1, 2] [(0, 0, 1), (0, 1, 1)] = [0, 1]
   \<and> t_offset [0, 1, 2] [(0, 0, 1), (0, 1, 1)] = [1, 1]
   \<and> sample_condition [(0, 0, 1), (0, 1, 1)] [0, 1] 1 0 = Inr ([1, 0, 0], [0, 1, 2])
   \<and> sample_condition [(0, 1, 1)] [0, 1] 1 0 = Inr ([1, 0, 0], [0, 1, 2])
   \<and> accumulated_regressor [0, 1, 2] [(0, 0, 1), (0, 1, 1)] = [2, 0, 0]"
proof -
  have g: "hr_grid [0, 1] 1 0 = Inr [0, 1, 2]" by code_simp
  have a: "t_onset [0, 1, 2] [(0, 0, 1), (0, 1, 1)] = [0, 0]" by code_simp
  have r: "raw_offset [0, 1, 2] [(0, 0, 1), (0, 1, 1)] = [0, 1]" by code_simp
  have b: "t_offset [0, 1, 2] [(0, 0, 1), (0, 1, 1)] = [1, 1]" by code_simp
  have c: "sample_condition [(0, 0, 1), (0, 1, 1)] [0, 1] 1 0 = Inr ([1, 0, 0], [0, 1, 2])"
    by code_simp
  have d: "sample_condition [(0, 1, 1)] [0, 1] 1 0 = Inr ([1, 0, 0], [0, 1, 2])"
    by code_simp
  have e: "accumulated_regressor [0, 1, 2] [(0, 0, 1), (0, 1, 1)] = [2, 0, 0]" by code_simp
  show ?thesis unfolding g a r b c d e by simp
qed

subsection \<open>The fine grid\<close>

lemma amax_Max: "xs \<noteq> [] \<Longrightarrow> amax xs = Inr (Max (set xs))"
proof (cases xs)
  case (Cons a list)
  then show ?thesis using Max.set_eq_fold [of a list] by (simp add: amax_def)
qed simp

lemma amin_Min: "xs \<noteq> [] \<Longrightarrow> amin xs = Inr (Min (set xs))"
proof (cases xs)
  case (Cons a list)
  then show ?thesis using Min.set_eq_fold [of a list] by (simp add: amin_def)
qed simp

lemma linspace_ge2:
  assumes "2 \<le> num"
  shows "linspace start stop num =
     (map (\<lambda>k. real k * ((stop - start) / real_of_int (\<lfloor>num\<rfloor> - 1)) + start)
          [0..<nat \<lfloor>num\<rfloor>])[nat \<lfloor>num\<rfloor> - 1 := stop]"
proof -
  have N: "2 \<le> \<lfloor>num\<rfloor>" using assms by linarith
  then have c: "\<not> \<lfloor>num\<rfloor> \<le> 0" "\<lfloor>num\<rfloor> \<noteq> 1" by linarith+
  have p: "py_int num = \<lfloor>num\<rfloor>" using assms by (simp add: py_int_def)
  show ?thesis
    unfolding linspace_def p Let_def using c by (simp only: if_False)
qed

lemma linspace_length:
  assumes "2 \<le> num"
  shows "int (length (linspace start stop num)) = \<lfloor>num\<rfloor>"
proof -
  have "0 \<le> \<lfloor>num\<rfloor>" using assms by linarith
  then show ?thesis unfolding linspace_ge2 [OF assms] by simp
qed

lemma linspace_nth:
  assumes "2 \<le> num" and "k < nat \<lfloor>num\<rfloor>"
  shows "linspace start stop num ! k
       = start + real k * ((stop - start) / (real_of_int \<lfloor>num\<rfloor> - 1))"
proof (cases "k = nat \<lfloor>num\<rfloor> - 1")
  case True
  have N: "2 \<le> \<lfloor>num\<rfloor>" using assms(1) by linarith
  from True N have "k = nat (\<lfloor>num\<rfloor> - 1)" by linarith
  then have k: "real k = real_of_int \<lfloor>num\<rfloor> - 1" using N by simp
  have nz: "real_of_int \<lfloor>num\<rfloor> - 1 \<noteq> 0" using N by linarith
  have "linspace start stop num ! k = stop"
    unfolding linspace_ge2 [OF assms(1)] using True assms(2) by simp
  also have "\<dots> = start + real k * ((stop - start) / (real_of_int \<lfloor>num\<rfloor> - 1))"
    unfolding k using nz by simp
  finally show ?thesis .
next
  case False
  then show ?thesis
    unfolding linspace_ge2 [OF assms(1)] using assms(2) by (simp add: algebra_simps)
qed

text \<open>
  Claim C2, as amended. The source passes the value it computed for \<open>n_hr\<close>, a
  float, as the sample count of \<open>np.linspace\<close>, which truncates it. For frame
  times \<open>n \<ge> 2\<close> in number and strictly increasing, and any computed value
  \<open>num \<ge> 2\<close> of \<open>n_hr\<close>, the grid has \<open>\<lfloor>num\<rfloor>\<close> samples; its first one is
  \<open>min(frame_times) + min_onset\<close>, its last one
  \<open>max(frame_times) * (1 + 1 / (n - 1))\<close>, and two neighbours are one step
  \<open>(last - first) / (count - 1)\<close> apart. In exact arithmetic \<open>num\<close> is the value
  of the linear formula.
\<close>

theorem hr_grid_shape:
  assumes "2 \<le> length frame_times" and "sorted_wrt (<) frame_times" and "2 \<le> num"
  shows "\<exists>g. hr_grid_of_count num frame_times min_onset = Inr g
     \<and> int (length g) = \<lfloor>num\<rfloor>
     \<and> hd g = Min (set frame_times) + min_onset
     \<and> last g = Max (set frame_times) * (1 + 1 / (real (length frame_times) - 1))
     \<and> (\<forall>k. Suc k < length g \<longrightarrow>
            g ! Suc k - g ! k = (last g - hd g) / (real (length g) - 1))
     \<and> hr_grid frame_times oversampling min_onset
         = hr_grid_of_count (n_hr (length frame_times) (Max (set frame_times))
                              (Min (set frame_times)) min_onset oversampling)
             frame_times min_onset"
proof -
  let ?n = "length frame_times"
  let ?mx = "Max (set frame_times)" and ?mn = "Min (set frame_times)"
  let ?start = "?mn + min_onset" and ?stop = "?mx * (1 + 1 / (real ?n - 1))"
  let ?g = "linspace ?start ?stop num"
  let ?step = "(?stop - ?start) / (real_of_int \<lfloor>num\<rfloor> - 1)"
  have ne: "frame_times \<noteq> []" and n1: "?n \<noteq> 1" using assms(1) by auto
  have "frame_times ! 0 < frame_times ! 1"
    using assms(1,2) by (simp add: sorted_wrt_iff_nth_less)
  moreover have "?mn \<le> frame_times ! 0" "frame_times ! 1 \<le> ?mx"
    using assms(1) by (auto intro!: Min_le Max_ge nth_mem)
  ultimately have neq: "?mx \<noteq> ?mn" by linarith
  have grid: "hr_grid_of_count num frame_times min_onset = Inr ?g"
    using n1 by (simp add: hr_grid_of_count_def amax_Max [OF ne] amin_Min [OF ne] Let_def)
  have exact: "hr_grid frame_times oversampling min_onset
      = hr_grid_of_count (n_hr ?n ?mx ?mn min_onset oversampling) frame_times min_onset"
    using n1 neq
    by (simp add: hr_grid_def hr_grid_of_count_def amax_Max [OF ne] amin_Min [OF ne] Let_def)
  have N: "2 \<le> \<lfloor>num\<rfloor>" using assms(3) by linarith
  have len: "int (length ?g) = \<lfloor>num\<rfloor>" by (rule linspace_length [OF assms(3)])
  then have lenn: "length ?g = nat \<lfloor>num\<rfloor>" by linarith
  have rlen: "real (length ?g) = real_of_int \<lfloor>num\<rfloor>"
    using len by (metis of_int_of_nat_eq)
  have nth: "?g ! k = ?start + real k * ?step" if "k < length ?g" for k
    using linspace_nth [OF assms(3), of k ?start ?stop] that lenn by simp
  have gne: "?g \<noteq> []" using lenn N by auto
  have h: "hd ?g = ?start"
    using nth [of 0] gne by (simp add: hd_conv_nth)
  have "last ?g = ?g ! (length ?g - 1)" using gne by (simp add: last_conv_nth)
  also have "\<dots> = ?start + real (length ?g - 1) * ?step"
    using gne by (intro nth) simp
  also have "real (length ?g - 1) = real_of_int \<lfloor>num\<rfloor> - 1"
    using rlen gne by (simp add: of_nat_diff Suc_leI)
  also have "?start + (real_of_int \<lfloor>num\<rfloor> - 1) * ?step = ?stop"
  proof -
    have "a + d * ((b - a) / d) = b" if "d \<noteq> 0" for a b d :: real
      using that by simp
    moreover have "real_of_int \<lfloor>num\<rfloor> - 1 \<noteq> 0" using N by linarith
    ultimately show ?thesis by blast
  qed
  finally have l: "last ?g = ?stop" .
  have even: "?g ! Suc k - ?g ! k = (last ?g - hd ?g) / (real (length ?g) - 1)"
    if "Suc k < length ?g" for k
  proof -
    define step where "step = ?step"
    have "?g ! k = ?start + real k * step" "?g ! Suc k = ?start + real (Suc k) * step"
      using nth [of k] nth [of "Suc k"] that by (simp_all add: step_def)
    then have "?g ! Suc k - ?g ! k = step" by (simp add: algebra_simps)
    then show ?thesis unfolding h l rlen step_def .
  qed
  show ?thesis
    using grid len h l even exact by blast
qed

text \<open>
  The witness takes the frame times \<open>[0, 3]\<close> and \<open>min_onset = -1\<close> twice: with
  oversampling \<open>1\<close>, where the formula gives \<open>10 / 3\<close>, and with oversampling \<open>3\<close>
  and the double \<open>7.999999999999999 = 8 - 2 ^ -50\<close> that the source computes where
  the formula gives \<open>8\<close>; the grid then has seven samples.
\<close>

theorem hr_grid_shape_witness:
  "2 \<le> length [0, 3 :: real] \<and> sorted_wrt (<) [0, 3 :: real]
   \<and> (2 :: real) \<le> 10 / 3 \<and> (2 :: real) \<le> 8 - 1 / 2 ^ 50
   \<and> n_hr (length [0, 3 :: real]) (Max (set [0, 3])) (Min (set [0, 3])) (-1) 1 = 10 / 3
   \<and> hr_grid [0, 3] 1 (-1) = Inr [-1, 5 / 2, 6]
   \<and> hr_grid_of_count (10 / 3) [0, 3] (-1) = Inr [-1, 5 / 2, 6]
   \<and> int (length [-1, 5 / 2, 6 :: real]) = \<lfloor>10 / 3 :: real\<rfloor>
   \<and> hr_grid_of_count (8 - 1 / 2 ^ 50) [0, 3] (-1) = Inr [-1, 1 / 6, 4 / 3, 5 / 2, 11 / 3, 29 / 6, 6]
   \<and> int (length [-1, 1 / 6, 4 / 3, 5 / 2, 11 / 3, 29 / 6, 6 :: real]) = \<lfloor>8 - 1 / 2 ^ 50 :: real\<rfloor>
   \<and> hd [-1, 1 / 6, 4 / 3, 5 / 2, 11 / 3, 29 / 6, 6 :: real] = Min (set [0, 3]) + (-1)
   \<and> last [-1, 1 / 6, 4 / 3, 5 / 2, 11 / 3, 29 / 6, 6 :: real]
       = Max (set [0, 3]) * (1 + 1 / (real (length [0, 3 :: real]) - 1))"
proof -
  have n: "n_hr (length [0, 3 :: real]) (Max (set [0, 3])) (Min (set [0, 3])) (-1) 1 = 10 / 3"
    by (simp add: n_hr_def)
  have g: "hr_grid [0, 3] 1 (-1) = Inr [-1, 5 / 2, 6]"
    by code_simp
  have a: "hr_grid_of_count (10 / 3) [0, 3] (-1) = Inr [-1, 5 / 2, 6]"
    by code_simp
  have b: "hr_grid_of_count (8 - 1 / 2 ^ 50) [0, 3] (-1)
      = Inr [-1, 1 / 6, 4 / 3, 5 / 2, 11 / 3, 29 / 6, 6]"
    by code_simp
  have f: "\<lfloor>8 - 1 / 2 ^ 50 :: real\<rfloor> = 7" by (simp add: floor_eq_iff)
  show ?thesis
    using hr_grid_shape [of "[0, 3]" "10 / 3" "-1" 1]
          hr_grid_shape [of "[0, 3]" "8 - 1 / 2 ^ 50" "-1" 3]
    unfolding n g a b f by simp
qed

text \<open>
  Claim C2 as stated fails: for the frame times \<open>[0, 3]\<close>, oversampling \<open>1\<close> and
  \<open>min_onset = -1\<close> the formula gives \<open>10 / 3\<close> and the grid has three samples; for
  the frame times \<open>[0, 1]\<close>, oversampling \<open>1\<close> and \<open>min_onset = 3\<close> the formula
  gives \<open>0\<close> and the grid is empty, without a first or a last element.
\<close>

theorem hr_grid_count_counterexample:
  "hr_grid [0, 3] 1 (-1) = Inr [-1, 5 / 2, 6]
   \<and> real (length [-1, 5 / 2, 6 :: real])
       \<noteq> n_hr (length [0, 3 :: real]) (Max (set [0, 3])) (Min (set [0, 3])) (-1) 1
   \<and> hr_grid [0, 1] 1 3 = Inr []"
proof -
  have n: "n_hr (length [0, 3 :: real]) (Max (set [0, 3])) (Min (set [0, 3])) (-1) 1 = 10 / 3"
    by (simp add: n_hr_def)
  have g: "hr_grid [0, 3] 1 (-1) = Inr [-1, 5 / 2, 6]"
    by code_simp
  have e: "hr_grid [0, 1] 1 3 = Inr []"
    by code_simp
  show ?thesis unfolding n g e by simp
qed

subsection \<open>The regressor of events that share an index\<close>

text \<open>
  Claim C3 says that the regressor is the prefix sum of a delta array to which
  every event adds its amplitude at its onset index. The source writes
  \<open>regressor[t_onset] += values\<close>, and NumPy does not accumulate over an index
  that occurs twice in \<open>t_onset\<close>. For the frame times \<open>[0, 1]\<close>, oversampling \<open>1\<close>,
  \<open>min_onset = 0\<close> (the grid \<open>[0, 1, 2]\<close>) and the two events of amplitude \<open>1\<close> that
  start at \<open>0\<close> and last \<open>1\<close> and \<open>2\<close>, the onset indices are \<open>[0, 0]\<close> and the
  offset indices \<open>[1, 2]\<close>: the source returns \<open>[1, 0, -1]\<close>, where the sum of the
  amplitudes of the active events is \<open>[2, 1, 0]\<close>.
\<close>

theorem event_regressor_shared_onset:
  "hr_grid [0, 1] 1 0 = Inr [0, 1, 2]
   \<and> t_onset [0, 1, 2] [(0, 1, 1), (0, 2, 1)] = [0, 0]
   \<and> t_offset [0, 1, 2] [(0, 1, 1), (0, 2, 1)] = [1, 2]
   \<and> sample_condition [(0, 1, 1), (0, 2, 1)] [0, 1] 1 0 = Inr ([1, 0, -1], [0, 1, 2])
   \<and> accumulated_regressor [0, 1, 2] [(0, 1, 1), (0, 2, 1)] = [2, 1, 0]"
proof -
  have g: "hr_grid [0, 1] 1 0 = Inr [0, 1, 2]" by code_simp
  have a: "t_onset [0, 1, 2] [(0, 1, 1), (0, 2, 1)] = [0, 0]" by code_simp
  have b: "t_offset [0, 1, 2] [(0, 1, 1), (0, 2, 1)] = [1, 2]" by code_simp
  have c: "sample_condition [(0, 1, 1), (0, 2, 1)] [0, 1] 1 0 = Inr ([1, 0, -1], [0, 1, 2])"
    by code_simp
  have d: "accumulated_regressor [0, 1, 2] [(0, 1, 1), (0, 2, 1)] = [2, 1, 0]" by code_simp
  show ?thesis unfolding g a b c d by simp
qed

subsection \<open>Shapes along the pipeline\<close>

lemma kernel_list_length: "kernel_list xs = Inr ks \<Longrightarrow> length ks = length xs"
  by (induction xs arbitrary: ks) (auto split: sum.splits)

lemma convolve_all_length: "convolve_all r hs = Inr cs \<Longrightarrow> length cs = length hs"
  by (induction hs arbitrary: cs) (auto split: sum.splits)

lemma resample_regressor_shape:
  assumes "resample_regressor conv hr ft = Inr creg"
  shows "length creg = length ft \<and> (\<forall>row \<in> set creg. length row = length conv)"
  using assms
  by (auto simp: resample_regressor_def transpose_array_def Let_def split: if_splits)


lemma isub_col_shape: "map length (isub_col X i v) = map length X"
  by (rule nth_equalityI) (simp_all add: isub_col_def)

lemma orth_loop_shape: "map length (fold (\<lambda>i X. orth_step pinv X i) is X) = map length X"
  by (induction "is" arbitrary: X) (simp_all add: orth_step_def isub_col_shape)

lemma orthogonalize_shape: "map length (orthogonalize pinv X) = map length X"
  by (simp add: orthogonalize_def orth_loop_shape)

lemma orthogonalize_rows:
  "length (orthogonalize pinv X) = length X
   \<and> (\<forall>row \<in> set (orthogonalize pinv X). length row \<in> length ` set X)"
proof -
  have "length (map length (orthogonalize pinv X)) = length (map length X)"
    and "set (map length (orthogonalize pinv X)) = set (map length X)"
    by (simp_all only: orthogonalize_shape)
  then show ?thesis by auto
qed

lemma hrf_kernel_names:
  assumes "hrf_kernel gpdf hrf_model tr oversampling fir_delays = Inr hkernel"
  shows "\<exists>names. regressor_names con_name hrf_model fir_delays = Inr (Some names)
     \<and> length names = length hkernel
     \<and> hrf_model \<in> set supported_models
     \<and> (hrf_model = ''spm'' \<or> hrf_model = ''canonical'' \<longrightarrow> length names = 1)
     \<and> (hrf_model = ''spm_time'' \<or> hrf_model = ''canonical with derivative''
           \<longrightarrow> length names = 2)
     \<and> (hrf_model = ''spm_time_dispersion'' \<longrightarrow> length names = 3)
     \<and> (hrf_model = ''fir'' \<longrightarrow> (\<exists>ds. fir_delays = Some ds \<and> length names = length ds))"
  using assms
  by (auto simp: hrf_kernel_def regressor_names_def supported_models_def
           simp del: kernel_list.simps
           dest!: kernel_list_length split: if_splits option.splits)

lemma compute_regressor_Inr:
  assumes "compute_regressor gpdf pinv ec m ft con os fd mo = Inr (creg, reg_names)"
  shows "\<exists>mx reg hr hk conv creg0.
           amax ft = Inr mx \<and> length ft \<noteq> 1
         \<and> sample_condition ec ft os mo = Inr (reg, hr)
         \<and> hrf_kernel gpdf m (mx / (real (length ft) - 1)) os fd = Inr hk
         \<and> convolve_all reg hk = Inr conv
         \<and> resample_regressor conv hr ft = Inr creg0
         \<and> creg = (if m \<noteq> ''fir'' then orthogonalize pinv creg0 else creg0)
         \<and> regressor_names con m fd = Inr reg_names"
proof -
  note d = compute_regressor_def
  from assms obtain mx where mx: "amax ft = Inr mx"
    by (cases "amax ft") (simp_all add: d)
  from assms mx have n1: "length ft \<noteq> 1"
    by (cases "length ft = 1") (simp_all add: d)
  let ?tr = "mx / (real (length ft) - 1)"
  from assms mx n1 obtain reg hr where sc: "sample_condition ec ft os mo = Inr (reg, hr)"
    by (cases "sample_condition ec ft os mo") (auto simp: d Let_def)
  from assms mx n1 sc obtain hk where hk: "hrf_kernel gpdf m ?tr os fd = Inr hk"
    by (cases "hrf_kernel gpdf m ?tr os fd") (simp_all add: d Let_def)
  from assms mx n1 sc hk obtain conv where conv: "convolve_all reg hk = Inr conv"
    by (cases "convolve_all reg hk") (simp_all add: d Let_def)
  from assms mx n1 sc hk conv obtain creg0 where rs: "resample_regressor conv hr ft = Inr creg0"
    by (cases "resample_regressor conv hr ft") (simp_all add: d Let_def)
  from assms mx n1 sc hk conv rs
  have "creg = (if m \<noteq> ''fir'' then orthogonalize pinv creg0 else creg0)
      \<and> regressor_names con m fd = Inr reg_names"
    by (cases "regressor_names con m fd") (simp_all add: d Let_def)
  with mx n1 sc hk conv rs show ?thesis by blast
qed

text \<open>
  Claim C5, as amended. Whenever \<open>compute_regressor\<close> returns a matrix and the
  names, the model identifier is one of the six, the matrix has one row per frame
  time, every row has as many entries as there are names, and the number of names
  is \<open>1\<close>, \<open>2\<close>, \<open>3\<close> or the number of delays, as the model says.
\<close>

theorem regressor_columns_match_names:
  assumes "compute_regressor gpdf pinv exp_condition hrf_model frame_times con_id
             oversampling fir_delays min_onset = Inr (creg, reg_names)"
  shows "\<exists>names. reg_names = Some names
     \<and> regressor_names con_id hrf_model fir_delays = Inr (Some names)
     \<and> hrf_model \<in> set supported_models
     \<and> length creg = length frame_times
     \<and> (\<forall>row \<in> set creg. length row = length names)
     \<and> (hrf_model = ''spm'' \<or> hrf_model = ''canonical'' \<longrightarrow> length names = 1)
     \<and> (hrf_model = ''spm_time'' \<or> hrf_model = ''canonical with derivative''
           \<longrightarrow> length names = 2)
     \<and> (hrf_model = ''spm_time_dispersion'' \<longrightarrow> length names = 3)
     \<and> (hrf_model = ''fir'' \<longrightarrow> (\<exists>ds. fir_delays = Some ds \<and> length names = length ds))"
proof -
  from compute_regressor_Inr [OF assms] obtain mx reg hr hk conv creg0 where
    k: "hrf_kernel gpdf hrf_model (mx / (real (length frame_times) - 1)) oversampling fir_delays
          = Inr hk"
    and c: "convolve_all reg hk = Inr conv"
    and r: "resample_regressor conv hr frame_times = Inr creg0"
    and o: "creg = (if hrf_model \<noteq> ''fir'' then orthogonalize pinv creg0 else creg0)"
    and n: "regressor_names con_id hrf_model fir_delays = Inr reg_names"
    by blast
  from hrf_kernel_names [OF k, of con_id] obtain names where
    N: "regressor_names con_id hrf_model fir_delays = Inr (Some names)
     \<and> length names = length hk
     \<and> hrf_model \<in> set supported_models
     \<and> (hrf_model = ''spm'' \<or> hrf_model = ''canonical'' \<longrightarrow> length names = 1)
     \<and> (hrf_model = ''spm_time'' \<or> hrf_model = ''canonical with derivative''
           \<longrightarrow> length names = 2)
     \<and> (hrf_model = ''spm_time_dispersion'' \<longrightarrow> length names = 3)
     \<and> (hrf_model = ''fir'' \<longrightarrow> (\<exists>ds. fir_delays = Some ds \<and> length names = length ds))" ..
  note n1 = N [THEN conjunct1]
  note n2 = N [THEN conjunct2, THEN conjunct1]
  note rest = N [THEN conjunct2, THEN conjunct2]
  from n1 n have rn: "reg_names = Some names" by simp
  have conv: "length conv = length names"
    using convolve_all_length [OF c] n2 by simp
  from resample_regressor_shape [OF r] conv
  have s0: "length creg0 = length frame_times" "\<forall>row \<in> set creg0. length row = length names"
    by simp_all
  have len: "length creg = length frame_times"
    using o s0(1) orthogonalize_rows [of pinv creg0] by (simp split: if_splits)
  have rows: "\<forall>row \<in> set creg. length row = length names"
  proof
    fix row assume row: "row \<in> set creg"
    show "length row = length names"
    proof (cases "hrf_model = ''fir''")
      case True
      with o row s0(2) show ?thesis by simp
    next
      case False
      with o row have "row \<in> set (orthogonalize pinv creg0)" by simp
      with orthogonalize_rows [of pinv creg0] have "length row \<in> length ` set creg0" by simp
      with s0(2) show ?thesis by auto
    qed
  qed
  show ?thesis
  proof (intro exI [of _ names] conjI)
    show "reg_names = Some names" by (rule rn)
    show "regressor_names con_id hrf_model fir_delays = Inr (Some names)" by (rule n1)
    show "hrf_model \<in> set supported_models" by (rule rest [THEN conjunct1])
    show "length creg = length frame_times" by (rule len)
    show "\<forall>row \<in> set creg. length row = length names" by (rule rows)
    show "hrf_model = ''spm'' \<or> hrf_model = ''canonical'' \<longrightarrow> length names = 1"
      by (rule rest [THEN conjunct2, THEN conjunct1])
    show "hrf_model = ''spm_time'' \<or> hrf_model = ''canonical with derivative''
           \<longrightarrow> length names = 2"
      by (rule rest [THEN conjunct2, THEN conjunct2, THEN conjunct1])
    show "hrf_model = ''spm_time_dispersion'' \<longrightarrow> length names = 3"
      by (rule rest [THEN conjunct2, THEN conjunct2, THEN conjunct2, THEN conjunct1])
    show "hrf_model = ''fir'' \<longrightarrow> (\<exists>ds. fir_delays = Some ds \<and> length names = length ds)"
      by (rule rest [THEN conjunct2, THEN conjunct2, THEN conjunct2, THEN conjunct2])
  qed
qed

theorem regressor_columns_match_names_witness:
  "compute_regressor (\<lambda>x a loc. 0) (\<lambda>A. []) [(0, 1, 1)] ''fir'' [0, 1, 2] ''cond'' 2
       (Some [0, 1, 12]) (-1)
     = Inr ([[1, 0, 0], [1, 1, 0], [0, 1, 0]],
            Some [''cond_delay_0'', ''cond_delay_1'', ''cond_delay_12''])
   \<and> length [[1, 0, 0], [1, 1, 0], [0, 1, 0 :: real]] = length [0, 1, 2 :: real]
   \<and> map length [[1, 0, 0], [1, 1, 0], [0, 1, 0 :: real]] = [3, 3, 3]
   \<and> length [''cond_delay_0'', ''cond_delay_1'', ''cond_delay_12''] = length [0, 1, 12 :: int]
   \<and> compute_regressor (\<lambda>x a loc. x + 1)
         (\<lambda>A. [map (\<lambda>x. x / dot (col A 0) (col A 0)) (col A 0)])
         [(0, 1, 1)] ''spm_time'' [0, 16] ''cond'' 1 None 0
     = Inr ([[1 / 34, - (528 / 296371)], [33 / 34, 16 / 296371]],
            Some [''cond'', ''cond_derivative''])"
proof -
  have a: "compute_regressor (\<lambda>x a loc. 0) (\<lambda>A. []) [(0, 1, 1)] ''fir'' [0, 1, 2] ''cond'' 2
       (Some [0, 1, 12]) (-1)
     = Inr ([[1, 0, 0], [1, 1, 0], [0, 1, 0]],
            Some [''cond_delay_0'', ''cond_delay_1'', ''cond_delay_12''])"
    by code_simp
  have b: "compute_regressor (\<lambda>x a loc. x + 1)
         (\<lambda>A. [map (\<lambda>x. x / dot (col A 0) (col A 0)) (col A 0)])
         [(0, 1, 1)] ''spm_time'' [0, 16] ''cond'' 1 None 0
     = Inr ([[1 / 34, - (528 / 296371)], [33 / 34, 16 / 296371]],
            Some [''cond'', ''cond_derivative''])"
    by code_simp
  show ?thesis
    using regressor_columns_match_names [OF a] regressor_columns_match_names [OF b]
    unfolding a b by simp
qed

text \<open>
  Claim C5 as stated fails: the model \<open>spm\<close> and the frame times \<open>[-1, 0]\<close>, two
  and strictly increasing, are a valid input, and \<open>compute_regressor\<close> returns
  nothing: the repetition time \<open>max(frame_times) / (n - 1)\<close> is zero, and
  \<open>float(time_length) / dt\<close> raises \<open>ZeroDivisionError\<close>.
\<close>

theorem compute_regressor_raises_counterexample:
  "''spm'' \<in> set supported_models \<and> 2 \<le> length [-1, 0 :: real] \<and> sorted_wrt (<) [-1, 0 :: real]
   \<and> compute_regressor (\<lambda>x a loc. 0) (\<lambda>A. []) [(-1, 1, 1)] ''spm'' [-1, 0] ''cond'' 1 None 0
       = Inl ZeroDivisionError"
proof -
  have a: "compute_regressor (\<lambda>x a loc. 0) (\<lambda>A. []) [(-1, 1, 1)] ''spm'' [-1, 0] ''cond'' 1 None 0
       = Inl ZeroDivisionError"
    by code_simp
  show ?thesis unfolding a by (simp add: supported_models_def)
qed

subsection \<open>An unknown model\<close>


lemma sample_condition_frame_times:
  assumes "sample_condition ec ft os mo = Inr s"
  shows "\<exists>mx. amax ft = Inr mx \<and> length ft \<noteq> 1"
proof -
  from assms obtain hr where "hr_grid ft os mo = Inr hr"
    by (cases "hr_grid ft os mo") (simp_all add: sample_condition_def)
  then show ?thesis
    by (cases "amax ft") (auto simp: hr_grid_def Let_def split: sum.splits if_splits)
qed

text \<open>
  Claim C8, as amended. For a model identifier outside the six supported ones
  \<open>compute_regressor\<close> never returns a result. The exception is
  \<open>ValueError('Unknown hrf model')\<close> whenever the event sampler, which runs
  before the kernel selector, returns; when the sampler raises, or the division
  by \<open>n - 1\<close> before it, the caller gets that exception instead.
\<close>

theorem unknown_model_fails:
  assumes "hrf_model \<notin> set supported_models"
  shows "(\<exists>e. compute_regressor gpdf pinv exp_condition hrf_model frame_times con_id
               oversampling fir_delays min_onset = Inl e)
       \<and> (\<forall>s. sample_condition exp_condition frame_times oversampling min_onset = Inr s
              \<longrightarrow> compute_regressor gpdf pinv exp_condition hrf_model frame_times con_id
                    oversampling fir_delays min_onset = Inl (ValueError ''Unknown hrf model''))
       \<and> (\<forall>e. 2 \<le> length frame_times
              \<and> sample_condition exp_condition frame_times oversampling min_onset = Inl e
              \<longrightarrow> compute_regressor gpdf pinv exp_condition hrf_model frame_times con_id
                    oversampling fir_delays min_onset = Inl e)
       \<and> (length frame_times = 1
              \<longrightarrow> compute_regressor gpdf pinv exp_condition hrf_model frame_times con_id
                    oversampling fir_delays min_onset = Inl ZeroDivisionError)"
proof -
  let ?c = "compute_regressor gpdf pinv exp_condition hrf_model frame_times con_id
               oversampling fir_delays min_onset"
  let ?s = "sample_condition exp_condition frame_times oversampling min_onset"
  have k: "hrf_kernel gpdf hrf_model tr oversampling fir_delays
             = Inl (ValueError ''Unknown hrf model'')" for tr
    using assms by (simp add: hrf_kernel_def supported_models_def)
  have a: "?c = Inl (ValueError ''Unknown hrf model'')" if "?s = Inr s" for s
  proof -
    from sample_condition_frame_times [OF that] obtain mx
      where "amax frame_times = Inr mx" "length frame_times \<noteq> 1" by blast
    with that k show ?thesis
      by (cases s) (simp add: compute_regressor_def Let_def)
  qed
  have b: "?c = Inl e" if "2 \<le> length frame_times" "?s = Inl e" for e
  proof -
    from that(1) obtain mx where "amax frame_times = Inr mx"
      by (cases frame_times) (simp_all add: amax_def)
    with that show ?thesis
      by (simp add: compute_regressor_def Let_def)
  qed
  have c: "?c = Inl ZeroDivisionError" if "length frame_times = 1"
  proof -
    from that obtain mx where "amax frame_times = Inr mx"
      by (cases frame_times) (simp_all add: amax_def)
    with that show ?thesis
      by (simp add: compute_regressor_def)
  qed
  have d: "\<exists>e. ?c = Inl e"
  proof (cases "?c")
    case (Inl e)
    then show ?thesis by blast
  next
    case (Inr r)
    obtain creg reg_names where "r = (creg, reg_names)" by (cases r)
    with Inr compute_regressor_Inr [of gpdf pinv exp_condition hrf_model frame_times con_id
        oversampling fir_delays min_onset creg reg_names] k
    show ?thesis by auto
  qed
  show ?thesis
    using a b c d by (intro conjI allI impI) auto
qed

theorem unknown_model_fails_witness:
  "''glover'' \<notin> set supported_models
   \<and> sample_condition [(0, 1, 1)] [0, 1] 1 0 = Inr ([1, 0, 0], [0, 1, 2])
   \<and> compute_regressor (\<lambda>x a loc. 0) (\<lambda>A. []) [(0, 1, 1)] ''glover'' [0, 1] ''cond'' 1 None 0
       = Inl (ValueError ''Unknown hrf model'')
   \<and> 2 \<le> length [0, 1 :: real]
   \<and> sample_condition [(0, 1, 1)] [0, 1] 1 3 = Inl IndexError
   \<and> compute_regressor (\<lambda>x a loc. 0) (\<lambda>A. []) [(0, 1, 1)] ''glover'' [0, 1] ''cond'' 1 None 3
       = Inl IndexError
   \<and> length [0 :: real] = 1
   \<and> compute_regressor (\<lambda>x a loc. 0) (\<lambda>A. []) [(0, 1, 1)] ''glover'' [0] ''cond'' 1 None 0
       = Inl ZeroDivisionError"
proof -
  have m: "''glover'' \<notin> set supported_models" by (simp add: supported_models_def)
  have a: "sample_condition [(0, 1, 1)] [0, 1] 1 0 = Inr ([1, 0, 0], [0, 1, 2])" by code_simp
  have b: "sample_condition [(0, 1, 1)] [0, 1] 1 3 = Inl IndexError" by code_simp
  show ?thesis
    using unknown_model_fails [OF m, of "\<lambda>x a loc. 0" "\<lambda>A. []" "[(0, 1, 1)]" "[0, 1]" "''cond''" 1 None 0]
          unknown_model_fails [OF m, of "\<lambda>x a loc. 0" "\<lambda>A. []" "[(0, 1, 1)]" "[0, 1]" "''cond''" 1 None 3]
          unknown_model_fails [OF m, of "\<lambda>x a loc. 0" "\<lambda>A. []" "[(0, 1, 1)]" "[0]" "''cond''" 1 None 0]
    unfolding a b using m by simp
qed

text \<open>
  Claim C8 as stated fails: the event sampler runs before the kernel selector, and
  when it raises, its exception is the one the caller gets. For the identifier
  \<open>glover\<close>, the frame times \<open>[0, 1]\<close>, oversampling \<open>1\<close> and \<open>min_onset = 3\<close> the
  grid is empty and the indexed update raises \<open>IndexError\<close>.
\<close>

theorem unknown_model_other_error_counterexample:
  "''glover'' \<notin> set supported_models
   \<and> compute_regressor (\<lambda>x a loc. 0) (\<lambda>A. []) [(0, 1, 1)] ''glover'' [0, 1] ''cond'' 1 None 3
       = Inl IndexError
   \<and> IndexError \<noteq> ValueError ''Unknown hrf model''"
proof -
  have a: "compute_regressor (\<lambda>x a loc. 0) (\<lambda>A. []) [(0, 1, 1)] ''glover'' [0, 1] ''cond'' 1 None 3
       = Inl IndexError"
    by code_simp
  show ?thesis unfolding a by (simp add: supported_models_def)
qed

subsection \<open>Invalid parameters\<close>







end
